theory Spec2Isabelle
  imports Main
begin

section \<open>Data model of \<^verbatim>\<open>rgw_remote.cc\<close>\<close>

text \<open>
  \<^verbatim>\<open>RGWRemoteCtl\<close> keeps, for every peer zone, a pair of REST connections (data and
  sip channel) and two tables that say which zones are notified of metadata and data
  changes. The types below are the ones \<^verbatim>\<open>rgw_remote.cc\<close> uses. Their C++
  declarations live in headers; each record lists the members the source file reads or
  writes. Several C++ classes share member names (\<^verbatim>\<open>id\<close>, \<^verbatim>\<open>endpoints\<close>,
  \<^verbatim>\<open>key\<close>), so a record field carries a prefix of its class.
\<close>

type_synonym rgw_zone_id = string
type_synonym rgw_user = string

text \<open>\<^verbatim>\<open>RGWAccessKey\<close>: members \<^verbatim>\<open>id\<close> and \<^verbatim>\<open>key\<close>.\<close>

record RGWAccessKey =
  ak_id :: string
  ak_key :: string

text \<open>
  \<^verbatim>\<open>RGWUserInfo\<close>: \<^verbatim>\<open>access_keys\<close> is a \<^verbatim>\<open>std::map\<close>, written here as the list of
  its entries in iteration order, so \<^verbatim>\<open>begin()\<close> is the head of the list.
\<close>

record RGWUserInfo =
  user_id :: rgw_user
  access_keys :: "(string \<times> RGWAccessKey) list"

text \<open>\<^verbatim>\<open>RGWDataProvider::RESTConfig\<close>: every member is a \<^verbatim>\<open>std::optional\<close>.\<close>

record RESTConfig =
  conf_endpoints :: "string list option"
  conf_uid :: "rgw_user option"
  conf_access_key :: "string option"
  conf_secret :: "string option"

record SIPConfig =
  rest_conf :: RESTConfig

record RGWDataProvider =
  dp_id :: rgw_zone_id
  dp_name :: string
  dp_endpoints :: "string list"
  data_access_conf :: "RESTConfig option"
  sip_conf :: "SIPConfig option"

text \<open>
  \<^verbatim>\<open>RGWZoneGroup\<close>: \<^verbatim>\<open>zones\<close> and \<^verbatim>\<open>foreign_zones\<close> are maps from zone id to zone,
  written as their entries in iteration order.
\<close>

record RGWZoneGroup =
  zg_id :: string
  api_name :: string
  zones :: "(rgw_zone_id \<times> RGWDataProvider) list"
  foreign_zones :: "(rgw_zone_id \<times> RGWDataProvider) list"

text \<open>
  The zone service \<^verbatim>\<open>svc.zone\<close>, by the queries the source makes:
  \<^verbatim>\<open>zone_id()\<close>, \<^verbatim>\<open>get_zonegroup()\<close>, \<^verbatim>\<open>get_zone_params().system_key\<close>,
  \<^verbatim>\<open>get_zone().redirect_zone\<close>, \<^verbatim>\<open>get_zone_data_notify_set()\<close>,
  \<^verbatim>\<open>find_zonegroup_by_zone(id, &zonegroup)\<close> and \<^verbatim>\<open>find_zone_id_by_name(name, &id)\<close>
  (a \<^verbatim>\<open>bool\<close> with an out-parameter is an option).
\<close>

record RGWSI_Zone =
  zone_id :: rgw_zone_id
  get_zonegroup :: RGWZoneGroup
  system_key :: RGWAccessKey
  redirect_zone :: rgw_zone_id
  get_zone_data_notify_set :: "rgw_zone_id set"
  find_zonegroup_by_zone :: "rgw_zone_id \<Rightarrow> RGWZoneGroup option"
  find_zone_id_by_name :: "string \<Rightarrow> rgw_zone_id option"

text \<open>
  The user controller \<^verbatim>\<open>ctl.user\<close>: each query returns the C++ return code and the
  \<^verbatim>\<open>RGWUserInfo\<close> it leaves in its out-parameter. Both are taken as parameters.
\<close>

record RGWUserCtl =
  get_info_by_access_key :: "string \<Rightarrow> int \<times> RGWUserInfo"
  get_info_by_uid :: "rgw_user \<Rightarrow> int \<times> RGWUserInfo"

text \<open>The calls made on the user controller, logged in the order they happen.\<close>

datatype store_call = ByAccessKey string | ByUid rgw_user

text \<open>
  \<^verbatim>\<open>RGWRESTConn\<close>, by the arguments of its constructor:
  \<^verbatim>\<open>RGWRESTConn(cct, remote_id, endpoints, key, zone_group_id, api_name)\<close>.
\<close>

record RGWRESTConn =
  conn_remote_id :: string
  conn_endpoints :: "string list"
  conn_key :: RGWAccessKey
  conn_zone_group :: string
  conn_api_name :: "string option"

text \<open>A \<^verbatim>\<open>RGWRESTConn *\<close> is the address of a cell of the connection heap.\<close>

type_synonym conn_ptr = nat

text \<open>\<^verbatim>\<open>RGWRemoteCtl::Conns\<close>.\<close>

record Conns =
  data :: conn_ptr
  sip :: conn_ptr

text \<open>
  The state: the four containers of \<^verbatim>\<open>RGWRemoteCtl\<close>, the heap of the
  \<^verbatim>\<open>RGWRESTConn\<close> objects allocated with \<^verbatim>\<open>new\<close> (a freed cell is \<open>None\<close>), and
  the log of the calls made on the user controller.
\<close>

record RGWRemoteCtl =
  alloc_conns :: "conn_ptr list"
  conns_map :: "rgw_zone_id \<rightharpoonup> Conns"
  zone_meta_notify_to_map :: "rgw_zone_id \<rightharpoonup> conn_ptr"
  zone_data_notify_to_map :: "rgw_zone_id \<rightharpoonup> conn_ptr"
  conn_heap :: "RGWRESTConn option list"
  store_calls :: "store_call list"

datatype error = InvalidDelete conn_ptr | InvalidDeref conn_ptr

text \<open>The constructor leaves every container empty; nothing is allocated yet.\<close>

definition RGWRemoteCtl_new :: RGWRemoteCtl where
  "RGWRemoteCtl_new =
     \<lparr>alloc_conns = [], conns_map = Map.empty, zone_meta_notify_to_map = Map.empty,
      zone_data_notify_to_map = Map.empty, conn_heap = [], store_calls = []\<rparr>"

section \<open>Allocation and release\<close>

text \<open>\<^verbatim>\<open>new RGWRESTConn(...)\<close>: a fresh cell at the end of the heap.\<close>

definition new_RGWRESTConn :: "RGWRESTConn \<Rightarrow> RGWRemoteCtl \<Rightarrow> conn_ptr \<times> RGWRemoteCtl" where
  "new_RGWRESTConn c s = (length (conn_heap s), s\<lparr>conn_heap := conn_heap s @ [Some c]\<rparr>)"

text \<open>
  Modelled from the spec: \<^verbatim>\<open>add_conn\<close> is declared in \<^verbatim>\<open>rgw_remote.h\<close>, which is
  not among the sources. The directory owns every handle it creates and releases all of
  them at teardown, and the destructor releases the entries of \<^verbatim>\<open>alloc_conns\<close>: so
  \<^verbatim>\<open>add_conn\<close> records the handle in \<^verbatim>\<open>alloc_conns\<close> and returns it.
\<close>

definition add_conn :: "conn_ptr \<Rightarrow> RGWRemoteCtl \<Rightarrow> conn_ptr \<times> RGWRemoteCtl" where
  "add_conn p s = (p, s\<lparr>alloc_conns := alloc_conns s @ [p]\<rparr>)"

text \<open>\<^verbatim>\<open>delete conn\<close>: releasing a cell that is not live is an error.\<close>

definition delete_conn :: "conn_ptr \<Rightarrow> RGWRESTConn option list \<Rightarrow> error + RGWRESTConn option list" where
  "delete_conn p h =
     (if p < length h \<and> h ! p \<noteq> None then Inr (h[p := None]) else Inl (InvalidDelete p))"

fun delete_all :: "conn_ptr list \<Rightarrow> RGWRESTConn option list \<Rightarrow> error + RGWRESTConn option list" where
  "delete_all [] h = Inr h"
| "delete_all (p # ps) h =
     (case delete_conn p h of Inl e \<Rightarrow> Inl e | Inr h' \<Rightarrow> delete_all ps h')"

text \<open>\<^verbatim>\<open>~RGWRemoteCtl\<close>: deletes every entry of \<^verbatim>\<open>alloc_conns\<close>, in order.\<close>

definition destructor :: "RGWRemoteCtl \<Rightarrow> error + RGWRESTConn option list" where
  "destructor s = delete_all (alloc_conns s) (conn_heap s)"

section \<open>Credentials\<close>

text \<open>
  Lines 59 to 72 of \<^verbatim>\<open>get_access_key\<close>, shared by the two lookups: a negative return
  code or an empty key map gives \<^verbatim>\<open>false\<close> and leaves \<^verbatim>\<open>*result\<close> as it is,
  otherwise \<^verbatim>\<open>*result\<close> becomes the first entry of the key map.
\<close>

definition get_access_key_tail ::
  "int \<Rightarrow> RGWUserInfo \<Rightarrow> RGWAccessKey \<Rightarrow> store_call list \<Rightarrow> bool \<times> RGWAccessKey \<times> store_call list" where
  "get_access_key_tail r info result calls =
     (if r < 0 then (False, result, calls)
      else (case access_keys info of
              [] \<Rightarrow> (False, result, calls)
            | akiter # _ \<Rightarrow> (True, snd akiter, calls)))"

text \<open>
  \<^verbatim>\<open>get_access_key\<close>: returns the \<^verbatim>\<open>bool\<close>, the content of \<^verbatim>\<open>*result\<close> afterwards
  (the last argument is its content before) and the calls made on the user controller.
  \<^verbatim>\<open>dpp\<close>, \<^verbatim>\<open>dest_id\<close> and \<^verbatim>\<open>y\<close> only reach the log and the controller.
\<close>

definition get_access_key ::
  "RGWUserCtl \<Rightarrow> rgw_user option \<Rightarrow> string option \<Rightarrow> string option \<Rightarrow> RGWAccessKey
     \<Rightarrow> bool \<times> RGWAccessKey \<times> store_call list" where
  "get_access_key user uid access_key secret result =
     (case access_key of
        Some ak \<Rightarrow>
          (let result1 = result\<lparr>ak_id := ak\<rparr> in
           case secret of
             Some sec \<Rightarrow> (True, result1\<lparr>ak_key := sec\<rparr>, [])
           | None \<Rightarrow>
               (let (r, info) = get_info_by_access_key user ak
                in get_access_key_tail r info result1 [ByAccessKey ak]))
      | None \<Rightarrow>
          (case uid of
             Some u \<Rightarrow>
               (let (r, info) = get_info_by_uid user u
                in get_access_key_tail r info result [ByUid u])
           | None \<Rightarrow> (False, result, [])))"

section \<open>Connection factory\<close>

text \<open>
  \<^verbatim>\<open>create_conn\<close> from a zone and a \<^verbatim>\<open>RESTConfig\<close>. The local \<^verbatim>\<open>access_key\<close> is
  default-constructed (empty id and key) before \<^verbatim>\<open>get_access_key\<close> fills it.
\<close>

definition create_conn ::
  "RGWSI_Zone \<Rightarrow> RGWUserCtl \<Rightarrow> string \<Rightarrow> rgw_zone_id \<Rightarrow> string list \<Rightarrow> RESTConfig
     \<Rightarrow> string option \<Rightarrow> RGWRemoteCtl \<Rightarrow> conn_ptr \<times> RGWRemoteCtl" where
  "create_conn svc user zone_name zid def_endpoints conf api s =
     (let endpoints = (case conf_endpoints conf of Some e \<Rightarrow> e | None \<Rightarrow> def_endpoints);
          (ok, found, calls) =
             get_access_key user (conf_uid conf) (conf_access_key conf) (conf_secret conf)
               \<lparr>ak_id = [], ak_key = []\<rparr>;
          access_key = (if \<not> ok then system_key svc else found)
      in new_RGWRESTConn
           \<lparr>conn_remote_id = zid, conn_endpoints = endpoints, conn_key = access_key,
            conn_zone_group = zg_id (get_zonegroup svc), conn_api_name = api\<rparr>
           (s\<lparr>store_calls := store_calls s @ calls\<rparr>))"

text \<open>\<^verbatim>\<open>create_conn\<close> from explicit parameters.\<close>

definition create_conn_explicit ::
  "RGWSI_Zone \<Rightarrow> string \<Rightarrow> string list \<Rightarrow> RGWAccessKey \<Rightarrow> string option \<Rightarrow> RGWRemoteCtl
     \<Rightarrow> conn_ptr \<times> RGWRemoteCtl" where
  "create_conn_explicit svc remote_id endpoints k api s =
     new_RGWRESTConn
       \<lparr>conn_remote_id = remote_id, conn_endpoints = endpoints, conn_key = k,
        conn_zone_group = zg_id (get_zonegroup svc), conn_api_name = api\<rparr> s"

section \<open>Connection directory\<close>

text \<open>
  Lines 85 to 91 of \<^verbatim>\<open>init_conn\<close>: the zone's own endpoints, unless they are empty and
  the data-access configuration has a non-empty list.
\<close>

definition def_endpoints :: "RGWDataProvider \<Rightarrow> string list" where
  "def_endpoints z =
     (if dp_endpoints z = [] then
        (case data_access_conf z of
           Some conf \<Rightarrow>
             (case conf_endpoints conf of
                Some e \<Rightarrow> if e \<noteq> [] then e else dp_endpoints z
              | None \<Rightarrow> dp_endpoints z)
         | None \<Rightarrow> dp_endpoints z)
      else dp_endpoints z)"

text \<open>
  \<^verbatim>\<open>init_conn\<close>. \<^verbatim>\<open>conns\<close> is a reference to \<^verbatim>\<open>conns_map[id]\<close>; both of its
  members are assigned before the function returns, so the entry is written once here.
\<close>

definition init_conn ::
  "RGWSI_Zone \<Rightarrow> RGWUserCtl \<Rightarrow> RGWDataProvider \<Rightarrow> bool \<Rightarrow> RGWRemoteCtl \<Rightarrow> RGWRemoteCtl" where
  "init_conn svc user z need_notify s =
     (if dp_id z = zone_id svc then s
      else if def_endpoints z = [] then s
      else
        (let api = (case find_zonegroup_by_zone svc (dp_id z) of
                      Some zonegroup \<Rightarrow> Some (api_name zonegroup)
                    | None \<Rightarrow> None);
             (d, s1) =
               (case data_access_conf z of
                  Some conf \<Rightarrow>
                    (let (p, t) = create_conn svc user (dp_name z) (dp_id z) (def_endpoints z) conf api s
                     in add_conn p t)
                | None \<Rightarrow>
                    (let (p, t) =
                       new_RGWRESTConn
                         \<lparr>conn_remote_id = dp_id z, conn_endpoints = dp_endpoints z,
                          conn_key = system_key svc,
                          conn_zone_group = zg_id (get_zonegroup svc), conn_api_name = api\<rparr> s
                     in add_conn p t));
             (sp, s2) =
               (case sip_conf z of
                  Some sc \<Rightarrow>
                    (let (p, t) =
                       create_conn svc user (dp_name z) (dp_id z) (def_endpoints z) (rest_conf sc) api s1
                     in add_conn p t)
                | None \<Rightarrow> (d, s1));
             s3 = s2\<lparr>conns_map := (conns_map s2)(dp_id z \<mapsto> \<lparr>data = d, sip = sp\<rparr>)\<rparr>
         in if \<not> need_notify then s3
            else
              (let s4 = s3\<lparr>zone_meta_notify_to_map := (zone_meta_notify_to_map s3)(dp_id z \<mapsto> d)\<rparr>
               in if dp_id z \<in> get_zone_data_notify_set svc
                  then s4\<lparr>zone_data_notify_to_map := (zone_data_notify_to_map s4)(dp_id z \<mapsto> d)\<rparr>
                  else s4)))"

text \<open>One loop of \<^verbatim>\<open>init\<close>: \<^verbatim>\<open>init_conn\<close> on every entry of a zone map, in order.\<close>

fun init_zones ::
  "RGWSI_Zone \<Rightarrow> RGWUserCtl \<Rightarrow> bool \<Rightarrow> (rgw_zone_id \<times> RGWDataProvider) list \<Rightarrow> RGWRemoteCtl
     \<Rightarrow> RGWRemoteCtl" where
  "init_zones svc user need_notify [] s = s"
| "init_zones svc user need_notify (ziter # rest) s =
     init_zones svc user need_notify rest (init_conn svc user (snd ziter) need_notify s)"

definition init :: "RGWSI_Zone \<Rightarrow> RGWUserCtl \<Rightarrow> RGWRemoteCtl \<Rightarrow> RGWRemoteCtl" where
  "init svc user s =
     init_zones svc user False (foreign_zones (get_zonegroup svc))
       (init_zones svc user True (zones (get_zonegroup svc)) s)"

text \<open>\<^verbatim>\<open>zone_conns\<close> by zone id and by zone name.\<close>

definition zone_conns :: "RGWRemoteCtl \<Rightarrow> rgw_zone_id \<Rightarrow> Conns option" where
  "zone_conns s zid = conns_map s zid"

definition zone_conns_by_name :: "RGWSI_Zone \<Rightarrow> RGWRemoteCtl \<Rightarrow> string \<Rightarrow> Conns option" where
  "zone_conns_by_name svc s name =
     (case find_zone_id_by_name svc name of
        None \<Rightarrow> None
      | Some zid \<Rightarrow> zone_conns s zid)"

section \<open>Redirect zone\<close>

text \<open>
  \<^verbatim>\<open>get_redirect_zone_endpoint\<close>. The \<^verbatim>\<open>bool\<close> and the out-parameter are one option:
  \<open>Some e\<close> for \<^verbatim>\<open>true\<close> with \<^verbatim>\<open>*endpoint = e\<close>, \<open>None\<close> for \<^verbatim>\<open>false\<close>.
  \<^verbatim>\<open>RGWRESTConn::get_url\<close> is a parameter: it gives the return code and the string it
  writes. Calling it through a pointer that holds no live connection is an error.
\<close>

definition get_redirect_zone_endpoint ::
  "(RGWRESTConn \<Rightarrow> int \<times> string) \<Rightarrow> RGWSI_Zone \<Rightarrow> RGWRemoteCtl \<Rightarrow> error + string option" where
  "get_redirect_zone_endpoint get_url svc s =
     (if redirect_zone svc = [] then Inr None
      else
        (case conns_map s (redirect_zone svc) of
           None \<Rightarrow> Inr None
         | Some conns \<Rightarrow>
             (if data conns < length (conn_heap s) then
                (case conn_heap s ! data conns of
                   None \<Rightarrow> Inl (InvalidDeref (data conns))
                 | Some conn \<Rightarrow>
                     (let (ret, url) = get_url conn
                      in if ret < 0 then Inr None else Inr (Some url)))
              else Inl (InvalidDeref (data conns)))))"

section \<open>Predicates used in the statements\<close>

text \<open>
  \<^verbatim>\<open>init_conn\<close> gets past its two early returns (lines 81 and 93) exactly for a zone
  that is not the local one and whose default endpoint list is not empty.
\<close>

definition builds_conn :: "RGWSI_Zone \<Rightarrow> RGWDataProvider \<Rightarrow> bool" where
  "builds_conn svc z = (dp_id z \<noteq> zone_id svc \<and> def_endpoints z \<noteq> [])"

text \<open>
  The ownership invariant: the handles registered in \<^verbatim>\<open>alloc_conns\<close> are the cells of
  the heap, each once and in allocation order; no cell has been released; and every
  handle held in \<^verbatim>\<open>conns_map\<close> points into the heap.
\<close>

definition owns_all :: "RGWRemoteCtl \<Rightarrow> bool" where
  "owns_all s =
     (alloc_conns s = [0..<length (conn_heap s)] \<and> None \<notin> set (conn_heap s)
      \<and> (\<forall>i c. conns_map s i = Some c \<longrightarrow>
             data c < length (conn_heap s) \<and> sip c < length (conn_heap s)))"

text \<open>The two channels share a handle exactly when the zone has no sip configuration.\<close>

definition paired :: "RGWDataProvider \<Rightarrow> Conns \<Rightarrow> bool" where
  "paired z c = (if sip_conf z = None then sip c = data c else sip c \<noteq> data c)"

section \<open>An example deployment\<close>

text \<open>
  A user store with one user that has two keys, one user without keys, and nobody else.
\<close>

definition ex_alice :: RGWUserInfo where
  "ex_alice =
     \<lparr>user_id = ''alice'',
      access_keys = [(''AK1'', \<lparr>ak_id = ''AK1'', ak_key = ''s1''\<rparr>),
                     (''AK2'', \<lparr>ak_id = ''AK2'', ak_key = ''s2''\<rparr>)]\<rparr>"

definition ex_user :: RGWUserCtl where
  "ex_user =
     \<lparr>get_info_by_access_key =
        (\<lambda>k. if k = ''AK1'' then (0, ex_alice) else (- 2, \<lparr>user_id = [], access_keys = []\<rparr>)),
      get_info_by_uid =
        (\<lambda>u. if u = ''alice'' then (0, ex_alice)
              else if u = ''bob'' then (0, \<lparr>user_id = ''bob'', access_keys = []\<rparr>)
              else (- 2, \<lparr>user_id = [], access_keys = []\<rparr>))\<rparr>"

text \<open>
  A zone group with the local zone \<open>A\<close>, the member zones \<open>B\<close> (no overrides), \<open>C\<close>
  (a sip override with its own endpoints and explicit credentials) and \<open>D\<close> (no usable
  endpoint), and the foreign zone \<open>F\<close> (a data-access override naming a user without keys).
\<close>

definition ex_zone_A :: RGWDataProvider where
  "ex_zone_A =
     \<lparr>dp_id = ''A'', dp_name = ''zone-a'', dp_endpoints = [''http://a''],
      data_access_conf = None, sip_conf = None\<rparr>"

definition ex_zone_B :: RGWDataProvider where
  "ex_zone_B =
     \<lparr>dp_id = ''B'', dp_name = ''zone-b'', dp_endpoints = [''http://e1''],
      data_access_conf = None, sip_conf = None\<rparr>"

definition ex_zone_C :: RGWDataProvider where
  "ex_zone_C =
     \<lparr>dp_id = ''C'', dp_name = ''zone-c'', dp_endpoints = [''http://e2''],
      data_access_conf = None,
      sip_conf = Some \<lparr>rest_conf =
        \<lparr>conf_endpoints = Some [''http://e3''], conf_uid = None,
         conf_access_key = Some ''AK9'', conf_secret = Some ''sec''\<rparr>\<rparr>\<rparr>"

definition ex_zone_D :: RGWDataProvider where
  "ex_zone_D =
     \<lparr>dp_id = ''D'', dp_name = ''zone-d'', dp_endpoints = [],
      data_access_conf = Some
        \<lparr>conf_endpoints = Some [], conf_uid = Some ''alice'',
         conf_access_key = None, conf_secret = None\<rparr>,
      sip_conf = None\<rparr>"

definition ex_zone_F :: RGWDataProvider where
  "ex_zone_F =
     \<lparr>dp_id = ''F'', dp_name = ''zone-f'', dp_endpoints = [''http://e4''],
      data_access_conf = Some
        \<lparr>conf_endpoints = None, conf_uid = Some ''bob'',
         conf_access_key = None, conf_secret = None\<rparr>,
      sip_conf = None\<rparr>"

definition ex_zonegroup :: RGWZoneGroup where
  "ex_zonegroup =
     \<lparr>zg_id = ''zg1'', api_name = ''default'',
      zones = [(''A'', ex_zone_A), (''B'', ex_zone_B), (''C'', ex_zone_C), (''D'', ex_zone_D)],
      foreign_zones = [(''F'', ex_zone_F)]\<rparr>"

definition ex_svc :: RGWSI_Zone where
  "ex_svc =
     \<lparr>zone_id = ''A'', get_zonegroup = ex_zonegroup,
      system_key = \<lparr>ak_id = ''SYS'', ak_key = ''syssecret''\<rparr>,
      redirect_zone = ''C'',
      get_zone_data_notify_set = {''B''},
      find_zonegroup_by_zone =
        (\<lambda>i. if i = ''A'' \<or> i = ''B'' \<or> i = ''C'' \<or> i = ''D'' then Some ex_zonegroup else None),
      find_zone_id_by_name =
        (\<lambda>n. if n = ''zone-a'' then Some ''A'' else if n = ''zone-b'' then Some ''B''
              else if n = ''zone-c'' then Some ''C'' else if n = ''zone-d'' then Some ''D''
              else if n = ''zone-f'' then Some ''F'' else None)\<rparr>"

text \<open>What \<^verbatim>\<open>get_url\<close> does in the example: the first endpoint, or an error when there is none.\<close>

definition ex_get_url :: "RGWRESTConn \<Rightarrow> int \<times> string" where
  "ex_get_url conn = (case conn_endpoints conn of [] \<Rightarrow> (- 5, []) | e # _ \<Rightarrow> (0, e))"

text \<open>A zone whose data-access override has an endpoint list that is present but empty.\<close>

definition ex_zone_E :: RGWDataProvider where
  "ex_zone_E =
     \<lparr>dp_id = ''E'', dp_name = ''zone-e'', dp_endpoints = [''http://e5''],
      data_access_conf = Some
        \<lparr>conf_endpoints = Some [], conf_uid = None,
         conf_access_key = None, conf_secret = None\<rparr>,
      sip_conf = None\<rparr>"

definition ex_state :: RGWRemoteCtl where
  "ex_state = init ex_svc ex_user RGWRemoteCtl_new"

section \<open>Effects of the operations on each part of the state\<close>

lemma create_conn_fst: "fst (create_conn svc user zn zid de conf api s) = length (conn_heap s)"
  by (simp add: create_conn_def new_RGWRESTConn_def Let_def split: prod.splits)

lemma create_conn_heap:
  "\<exists>c. conn_heap (snd (create_conn svc user zn zid de conf api s)) = conn_heap s @ [Some c]"
  by (simp add: create_conn_def new_RGWRESTConn_def Let_def split: prod.splits)

lemma create_conn_frame:
  "alloc_conns (snd (create_conn svc user zn zid de conf api s)) = alloc_conns s"
  "conns_map (snd (create_conn svc user zn zid de conf api s)) = conns_map s"
  "zone_meta_notify_to_map (snd (create_conn svc user zn zid de conf api s)) = zone_meta_notify_to_map s"
  "zone_data_notify_to_map (snd (create_conn svc user zn zid de conf api s)) = zone_data_notify_to_map s"
  by (simp_all add: create_conn_def new_RGWRESTConn_def Let_def split: prod.splits)

lemma init_conn_skip: "\<not> builds_conn svc z \<Longrightarrow> init_conn svc user z nn s = s"
  by (auto simp: builds_conn_def init_conn_def)

lemma init_conn_alloc:
  "builds_conn svc z \<Longrightarrow>
   alloc_conns (init_conn svc user z nn s) =
     alloc_conns s @ (if sip_conf z = None then [length (conn_heap s)]
                      else [length (conn_heap s), Suc (length (conn_heap s))])"
  by (auto simp: builds_conn_def init_conn_def create_conn_def add_conn_def new_RGWRESTConn_def Let_def
      split: prod.splits option.splits)

lemma init_conn_heap_length:
  "builds_conn svc z \<Longrightarrow>
   length (conn_heap (init_conn svc user z nn s)) =
     length (conn_heap s) + (if sip_conf z = None then 1 else 2)"
  by (auto simp: builds_conn_def init_conn_def create_conn_def add_conn_def new_RGWRESTConn_def Let_def
      split: prod.splits option.splits)

lemma init_conn_heap_prefix:
  "take (length (conn_heap s)) (conn_heap (init_conn svc user z nn s)) = conn_heap s"
  by (auto simp: init_conn_def create_conn_def add_conn_def new_RGWRESTConn_def Let_def
      split: prod.splits option.splits)

lemma init_conn_heap_live:
  "None \<notin> set (conn_heap s) \<Longrightarrow> None \<notin> set (conn_heap (init_conn svc user z nn s))"
  by (auto simp: init_conn_def create_conn_def add_conn_def new_RGWRESTConn_def Let_def
      split: prod.splits option.splits)

lemma init_conn_conns_map:
  "builds_conn svc z \<Longrightarrow>
   conns_map (init_conn svc user z nn s) =
     (conns_map s)(dp_id z \<mapsto>
        \<lparr>data = length (conn_heap s),
         sip = (if sip_conf z = None then length (conn_heap s) else Suc (length (conn_heap s)))\<rparr>)"
  by (auto simp: builds_conn_def init_conn_def create_conn_def add_conn_def new_RGWRESTConn_def Let_def
      split: prod.splits option.splits)

lemma init_conn_meta:
  "builds_conn svc z \<Longrightarrow>
   zone_meta_notify_to_map (init_conn svc user z nn s) =
     (if nn then (zone_meta_notify_to_map s)(dp_id z \<mapsto> length (conn_heap s))
      else zone_meta_notify_to_map s)"
  by (auto simp: builds_conn_def init_conn_def create_conn_def add_conn_def new_RGWRESTConn_def Let_def
      split: prod.splits option.splits)

lemma init_conn_data:
  "builds_conn svc z \<Longrightarrow>
   zone_data_notify_to_map (init_conn svc user z nn s) =
     (if nn \<and> dp_id z \<in> get_zone_data_notify_set svc
      then (zone_data_notify_to_map s)(dp_id z \<mapsto> length (conn_heap s))
      else zone_data_notify_to_map s)"
  by (auto simp: builds_conn_def init_conn_def create_conn_def add_conn_def new_RGWRESTConn_def Let_def
      split: prod.splits option.splits)

lemma owns_all_new: "owns_all RGWRemoteCtl_new"
  by (simp add: owns_all_def RGWRemoteCtl_new_def)

lemma owns_all_init_conn:
  assumes "owns_all s"
  shows "owns_all (init_conn svc user z nn s)"
proof (cases "builds_conn svc z")
  case False
  with assms show ?thesis by (simp add: init_conn_skip)
next
  case True
  let ?t = "init_conn svc user z nn s"
  let ?n = "length (conn_heap s)"
  from assms have a: "alloc_conns s = [0..<?n]" and l: "None \<notin> set (conn_heap s)"
    and c: "\<And>i c. conns_map s i = Some c \<Longrightarrow> data c < ?n \<and> sip c < ?n"
    by (auto simp: owns_all_def)
  have len: "length (conn_heap ?t) = ?n + (if sip_conf z = None then 1 else 2)"
    using True by (rule init_conn_heap_length)
  have "alloc_conns ?t = [0..<length (conn_heap ?t)]"
    using init_conn_alloc [OF True, of user nn s] a len by (simp add: upt_rec [of "?n"])
  moreover have "None \<notin> set (conn_heap ?t)"
    using l by (rule init_conn_heap_live)
  moreover have "\<And>i c. conns_map ?t i = Some c \<Longrightarrow>
      data c < length (conn_heap ?t) \<and> sip c < length (conn_heap ?t)"
  proof -
    fix i c
    assume h: "conns_map ?t i = Some c"
    show "data c < length (conn_heap ?t) \<and> sip c < length (conn_heap ?t)"
    proof (cases "i = dp_id z")
      case True
      with h init_conn_conns_map [OF \<open>builds_conn svc z\<close>, of user nn s] len show ?thesis
        by (auto split: if_splits)
    next
      case False
      with h init_conn_conns_map [OF \<open>builds_conn svc z\<close>, of user nn s] have "conns_map s i = Some c"
        by simp
      from c [OF this] len show ?thesis by (simp split: if_splits)
    qed
  qed
  ultimately show ?thesis by (simp add: owns_all_def)
qed

lemma owns_all_init_zones: "owns_all s \<Longrightarrow> owns_all (init_zones svc user nn zs s)"
  by (induction zs arbitrary: s) (simp_all add: owns_all_init_conn)

lemma owns_all_init: "owns_all s \<Longrightarrow> owns_all (init svc user s)"
  by (simp add: init_def owns_all_init_zones)

lemma delete_all_distinct:
  "distinct ps \<Longrightarrow> \<forall>p\<in>set ps. p < length h \<and> h ! p \<noteq> None \<Longrightarrow>
   \<exists>h'. delete_all ps h = Inr h' \<and> length h' = length h
        \<and> (\<forall>i<length h. h' ! i = (if i \<in> set ps then None else h ! i))"
proof (induction ps arbitrary: h)
  case Nil
  then show ?case by simp
next
  case (Cons p ps)
  let ?h = "h[p := None]"
  from Cons.prems have d: "delete_conn p h = Inr ?h"
    by (simp add: delete_conn_def)
  from Cons.prems have "distinct ps" and "\<forall>q\<in>set ps. q < length ?h \<and> ?h ! q \<noteq> None"
    by (auto simp: nth_list_update)
  from Cons.IH [OF this] obtain h' where
    h': "delete_all ps ?h = Inr h'" "length h' = length ?h"
        "\<forall>i<length ?h. h' ! i = (if i \<in> set ps then None else ?h ! i)"
    by blast
  from h' d Cons.prems show ?case
    by (auto simp: nth_list_update)
qed

lemma destructor_owns_all:
  assumes "owns_all s"
  shows "destructor s = Inr (replicate (length (conn_heap s)) None)"
proof -
  let ?h = "conn_heap s"
  from assms have a: "alloc_conns s = [0..<length ?h]" and l: "None \<notin> set ?h"
    by (auto simp: owns_all_def)
  have "distinct (alloc_conns s)" by (simp add: a)
  moreover have "\<forall>p\<in>set (alloc_conns s). p < length ?h \<and> ?h ! p \<noteq> None"
    using l by (auto simp: a in_set_conv_nth simp del: not_None_eq)
  ultimately obtain h' where
    h': "delete_all (alloc_conns s) ?h = Inr h'" "length h' = length ?h"
        "\<forall>i<length ?h. h' ! i = (if i \<in> set (alloc_conns s) then None else ?h ! i)"
    using delete_all_distinct by blast
  have "h' = replicate (length ?h) None"
  proof (rule nth_equalityI)
    show "length h' = length (replicate (length ?h) None)"
      using h'(2) by simp
  next
    fix i
    assume "i < length h'"
    with h'(2,3) show "h' ! i = replicate (length ?h) None ! i"
      by (simp add: a)
  qed
  with h' show ?thesis by (simp add: destructor_def)
qed

lemma init_zones_conns_dom:
  "dom (conns_map (init_zones svc user nn zs s)) =
     dom (conns_map s) \<union> dp_id ` {z \<in> snd ` set zs. builds_conn svc z}"
proof (induction zs arbitrary: s)
  case Nil
  then show ?case by simp
next
  case (Cons y zs)
  show ?case
  proof (cases "builds_conn svc (snd y)")
    case True
    then show ?thesis by (auto simp: Cons.IH init_conn_conns_map split: if_splits)
  next
    case False
    then show ?thesis by (auto simp: Cons.IH init_conn_skip)
  qed
qed

lemma init_zones_meta_dom:
  "dom (zone_meta_notify_to_map (init_zones svc user nn zs s)) =
     dom (zone_meta_notify_to_map s)
     \<union> (if nn then dp_id ` {z \<in> snd ` set zs. builds_conn svc z} else {})"
proof (induction zs arbitrary: s)
  case Nil
  then show ?case by simp
next
  case (Cons y zs)
  show ?case
  proof (cases "builds_conn svc (snd y)")
    case True
    then show ?thesis by (auto simp: Cons.IH init_conn_meta split: if_splits)
  next
    case False
    then show ?thesis by (auto simp: Cons.IH init_conn_skip)
  qed
qed

lemma init_zones_data_dom:
  "dom (zone_data_notify_to_map (init_zones svc user nn zs s)) =
     dom (zone_data_notify_to_map s)
     \<union> (if nn then dp_id ` {z \<in> snd ` set zs. builds_conn svc z} \<inter> get_zone_data_notify_set svc
         else {})"
proof (induction zs arbitrary: s)
  case Nil
  then show ?case by simp
next
  case (Cons y zs)
  show ?case
  proof (cases "builds_conn svc (snd y)")
    case True
    then show ?thesis by (auto simp: Cons.IH init_conn_data split: if_splits)
  next
    case False
    then show ?thesis by (auto simp: Cons.IH init_conn_skip)
  qed
qed

lemma init_zones_conns_frame:
  "i \<notin> dp_id ` snd ` set zs \<Longrightarrow> conns_map (init_zones svc user nn zs s) i = conns_map s i"
proof (induction zs arbitrary: s)
  case Nil
  then show ?case by simp
next
  case (Cons y zs)
  then show ?case
    by (cases "builds_conn svc (snd y)") (auto simp: init_conn_conns_map init_conn_skip)
qed

lemma init_zones_entry:
  "distinct (map (\<lambda>y. dp_id (snd y)) zs) \<Longrightarrow> z \<in> snd ` set zs \<Longrightarrow> builds_conn svc z \<Longrightarrow>
   \<exists>c. conns_map (init_zones svc user nn zs s) (dp_id z) = Some c \<and> paired z c"
proof (induction zs arbitrary: s)
  case Nil
  then show ?case by simp
next
  case (Cons y zs)
  show ?case
  proof (cases "z = snd y")
    case True
    with Cons.prems have "dp_id z \<notin> dp_id ` snd ` set zs" by auto
    then have "conns_map (init_zones svc user nn (y # zs) s) (dp_id z)
        = conns_map (init_conn svc user z nn s) (dp_id z)"
      using True by (simp add: init_zones_conns_frame)
    then show ?thesis
      using Cons.prems(3) by (simp add: init_conn_conns_map paired_def)
  next
    case False
    with Cons.prems have "distinct (map (\<lambda>y. dp_id (snd y)) zs)" and "z \<in> snd ` set zs" by auto
    from Cons.IH [OF this Cons.prems(3)] show ?thesis by simp
  qed
qed

section \<open>The example deployment, evaluated\<close>

lemmas ex_defs = ex_svc_def ex_zonegroup_def ex_zone_A_def ex_zone_B_def ex_zone_C_def
  ex_zone_D_def ex_zone_F_def ex_user_def ex_alice_def

lemma ex_state_eq:
  "ex_state =
     \<lparr>alloc_conns = [0, 1, 2, 3],
      conns_map = [''B'' \<mapsto> \<lparr>data = 0, sip = 0\<rparr>, ''C'' \<mapsto> \<lparr>data = 1, sip = 2\<rparr>,
                   ''F'' \<mapsto> \<lparr>data = 3, sip = 3\<rparr>],
      zone_meta_notify_to_map = [''B'' \<mapsto> 0, ''C'' \<mapsto> 1],
      zone_data_notify_to_map = [''B'' \<mapsto> 0],
      conn_heap =
        [Some \<lparr>conn_remote_id = ''B'', conn_endpoints = [''http://e1''],
               conn_key = \<lparr>ak_id = ''SYS'', ak_key = ''syssecret''\<rparr>,
               conn_zone_group = ''zg1'', conn_api_name = Some ''default''\<rparr>,
         Some \<lparr>conn_remote_id = ''C'', conn_endpoints = [''http://e2''],
               conn_key = \<lparr>ak_id = ''SYS'', ak_key = ''syssecret''\<rparr>,
               conn_zone_group = ''zg1'', conn_api_name = Some ''default''\<rparr>,
         Some \<lparr>conn_remote_id = ''C'', conn_endpoints = [''http://e3''],
               conn_key = \<lparr>ak_id = ''AK9'', ak_key = ''sec''\<rparr>,
               conn_zone_group = ''zg1'', conn_api_name = Some ''default''\<rparr>,
         Some \<lparr>conn_remote_id = ''F'', conn_endpoints = [''http://e4''],
               conn_key = \<lparr>ak_id = ''SYS'', ak_key = ''syssecret''\<rparr>,
               conn_zone_group = ''zg1'', conn_api_name = None\<rparr>],
      store_calls = [ByUid ''bob'']\<rparr>"
  by (simp add: ex_state_def init_def init_conn_def create_conn_def add_conn_def new_RGWRESTConn_def
      get_access_key_def get_access_key_tail_def def_endpoints_def RGWRemoteCtl_new_def ex_defs
      Let_def numeral_2_eq_2 numeral_3_eq_3)

section \<open>Facts about the whole of \<^verbatim>\<open>init\<close>\<close>

lemma count_list_upt: "count_list [0..<n] p = (if p < n then 1 else 0)"
  by (induction n) auto

lemma owns_all_live:
  assumes "owns_all s" and "conns_map s i = Some c"
  shows "data c < length (conn_heap s) \<and> (\<exists>conn. conn_heap s ! data c = Some conn)"
    and "sip c < length (conn_heap s) \<and> (\<exists>conn. conn_heap s ! sip c = Some conn)"
proof -
  from assms have b: "data c < length (conn_heap s)" "sip c < length (conn_heap s)"
    and l: "None \<notin> set (conn_heap s)"
    by (auto simp: owns_all_def)
  from b l have "conn_heap s ! data c \<noteq> None" "conn_heap s ! sip c \<noteq> None"
    by (auto simp: in_set_conv_nth simp del: not_None_eq)
  with b show "data c < length (conn_heap s) \<and> (\<exists>conn. conn_heap s ! data c = Some conn)"
    and "sip c < length (conn_heap s) \<and> (\<exists>conn. conn_heap s ! sip c = Some conn)"
    by auto
qed

lemma init_conns_dom:
  "dom (conns_map (init svc user s)) =
     dom (conns_map s)
     \<union> dp_id ` {z \<in> snd ` set (zones (get_zonegroup svc) @ foreign_zones (get_zonegroup svc)).
                  builds_conn svc z}"
  by (auto simp: init_def init_zones_conns_dom)

lemma init_entry:
  assumes d: "distinct (map (\<lambda>y. dp_id (snd y))
                (zones (get_zonegroup svc) @ foreign_zones (get_zonegroup svc)))"
    and z: "z \<in> snd ` set (zones (get_zonegroup svc) @ foreign_zones (get_zonegroup svc))"
    and b: "builds_conn svc z"
  shows "\<exists>c. conns_map (init svc user s) (dp_id z) = Some c \<and> paired z c"
proof (cases "z \<in> snd ` set (foreign_zones (get_zonegroup svc))")
  case True
  from d have "distinct (map (\<lambda>y. dp_id (snd y)) (foreign_zones (get_zonegroup svc)))"
    by simp
  from init_zones_entry [OF this True b] show ?thesis
    by (simp add: init_def)
next
  case False
  with z have m: "z \<in> snd ` set (zones (get_zonegroup svc))" by auto
  from d have "distinct (map (\<lambda>y. dp_id (snd y)) (zones (get_zonegroup svc)))"
    by simp
  from init_zones_entry [OF this m b] obtain c where
    c: "conns_map (init_zones svc user True (zones (get_zonegroup svc)) s) (dp_id z) = Some c"
       "paired z c"
    by blast
  from d m have "dp_id z \<notin> dp_id ` snd ` set (foreign_zones (get_zonegroup svc))"
    by (auto simp: image_iff)
  with c show ?thesis
    by (simp add: init_def init_zones_conns_frame)
qed

lemma distinct_zone_ids:
  "distinct (map (\<lambda>y. dp_id (snd y)) zs) \<Longrightarrow> y \<in> snd ` set zs \<Longrightarrow> z \<in> snd ` set zs \<Longrightarrow>
   dp_id y = dp_id z \<Longrightarrow> y = z"
  by (auto simp: distinct_map inj_on_def)

lemma init_entry_builds:
  assumes d: "distinct (map (\<lambda>y. dp_id (snd y))
                (zones (get_zonegroup svc) @ foreign_zones (get_zonegroup svc)))"
    and z: "z \<in> snd ` set (zones (get_zonegroup svc) @ foreign_zones (get_zonegroup svc))"
    and e: "conns_map (init svc user RGWRemoteCtl_new) (dp_id z) = Some c"
  shows "builds_conn svc z"
proof -
  from e have "dp_id z \<in> dom (conns_map (init svc user RGWRemoteCtl_new))"
    by blast
  then have "dp_id z \<in> dp_id `
      {y \<in> snd ` set (zones (get_zonegroup svc) @ foreign_zones (get_zonegroup svc)).
         builds_conn svc y}"
    by (simp add: init_conns_dom RGWRemoteCtl_new_def)
  then obtain y where
    "y \<in> {y \<in> snd ` set (zones (get_zonegroup svc) @ foreign_zones (get_zonegroup svc)).
         builds_conn svc y}" and i: "dp_id z = dp_id y"
    by (rule imageE)
  then have y: "y \<in> snd ` set (zones (get_zonegroup svc) @ foreign_zones (get_zonegroup svc))"
    and b: "builds_conn svc y"
    by simp_all
  from distinct_zone_ids [OF d y z i [symmetric]] b show ?thesis by simp
qed

lemma create_conn_redirect:
  "create_conn (svc\<lparr>redirect_zone := r\<rparr>) user zn zid de conf api s
     = create_conn svc user zn zid de conf api s"
  by (simp add: create_conn_def split: prod.split cong: if_cong)

lemma init_conn_redirect:
  "init_conn (svc\<lparr>redirect_zone := r\<rparr>) user z nn s = init_conn svc user z nn s"
  by (simp add: init_conn_def create_conn_redirect Let_def split: option.split prod.split
      cong: if_cong)

lemma init_zones_redirect:
  "init_zones (svc\<lparr>redirect_zone := r\<rparr>) user nn zs s = init_zones svc user nn zs s"
  by (induction zs arbitrary: s) (simp_all add: init_conn_redirect)

lemma init_redirect: "init (svc\<lparr>redirect_zone := r\<rparr>) user s = init svc user s"
  by (simp add: init_def init_zones_redirect)

lemmas ex_init = ex_state_eq [unfolded ex_state_def]

lemma ex_zone_ids_distinct:
  "distinct (map (\<lambda>y. dp_id (snd y))
     (zones (get_zonegroup ex_svc) @ foreign_zones (get_zonegroup ex_svc)))"
  by (simp add: ex_defs)

section \<open>Claims\<close>

text \<open>
  C1. Credential resolution follows a fixed order, first match wins. With an access-key id
  and a secret, \<^verbatim>\<open>get_access_key\<close> returns exactly that pair and calls the user store
  not at all. With an access-key id and no secret, it makes exactly one call, a lookup by
  that access-key id, and when the lookup succeeds with a non-empty key map it returns the
  first key of the map. With no access-key id and a user id, it makes exactly one call, a
  lookup by that user id, and returns the first key in the same way. With neither, it
  returns \<^verbatim>\<open>false\<close>, leaves the result untouched and makes no call.
\<close>

theorem get_access_key_order:
  "get_access_key user uid (Some a) (Some k) result = (True, \<lparr>ak_id = a, ak_key = k\<rparr>, [])
   \<and> snd (snd (get_access_key user uid (Some a) None result)) = [ByAccessKey a]
   \<and> (get_info_by_access_key user a = (r, info) \<and> 0 \<le> r \<and> access_keys info = first # rest \<longrightarrow>
        get_access_key user uid (Some a) None result = (True, snd first, [ByAccessKey a]))
   \<and> snd (snd (get_access_key user (Some u) None secret result)) = [ByUid u]
   \<and> (get_info_by_uid user u = (r', info') \<and> 0 \<le> r' \<and> access_keys info' = first' # rest' \<longrightarrow>
        get_access_key user (Some u) None secret result = (True, snd first', [ByUid u]))
   \<and> get_access_key user None None secret result = (False, result, [])"
  by (auto simp: get_access_key_def get_access_key_tail_def Let_def split: prod.splits list.splits)

theorem get_access_key_order_witness:
  "get_info_by_access_key ex_user ''AK1'' = (0, ex_alice) \<and> (0::int) \<le> 0
   \<and> access_keys ex_alice = (''AK1'', \<lparr>ak_id = ''AK1'', ak_key = ''s1''\<rparr>)
        # [(''AK2'', \<lparr>ak_id = ''AK2'', ak_key = ''s2''\<rparr>)]
   \<and> get_info_by_uid ex_user ''alice'' = (0, ex_alice)
   \<and> get_access_key ex_user (Some ''alice'') (Some ''AK1'') (Some ''sec'') \<lparr>ak_id = [], ak_key = []\<rparr>
       = (True, \<lparr>ak_id = ''AK1'', ak_key = ''sec''\<rparr>, [])
   \<and> get_access_key ex_user (Some ''alice'') (Some ''AK1'') None \<lparr>ak_id = [], ak_key = []\<rparr>
       = (True, \<lparr>ak_id = ''AK1'', ak_key = ''s1''\<rparr>, [ByAccessKey ''AK1''])
   \<and> get_access_key ex_user (Some ''alice'') None (Some ''sec'') \<lparr>ak_id = [], ak_key = []\<rparr>
       = (True, \<lparr>ak_id = ''AK1'', ak_key = ''s1''\<rparr>, [ByUid ''alice''])
   \<and> get_access_key ex_user None None (Some ''sec'') \<lparr>ak_id = [], ak_key = []\<rparr>
       = (False, \<lparr>ak_id = [], ak_key = []\<rparr>, [])"
proof -
  have h1: "get_info_by_access_key ex_user ''AK1'' = (0, ex_alice)"
    and h2: "get_info_by_uid ex_user ''alice'' = (0, ex_alice)"
    by (simp_all add: ex_user_def)
  have h3: "access_keys ex_alice = (''AK1'', \<lparr>ak_id = ''AK1'', ak_key = ''s1''\<rparr>)
        # [(''AK2'', \<lparr>ak_id = ''AK2'', ak_key = ''s2''\<rparr>)]"
    by (simp add: ex_alice_def)
  show ?thesis
    using h1 h2 h3
      get_access_key_order [of ex_user "Some ''alice''" "''AK1''" "''sec''" "\<lparr>ak_id = [], ak_key = []\<rparr>"
        0 ex_alice "(''AK1'', \<lparr>ak_id = ''AK1'', ak_key = ''s1''\<rparr>)"
        "[(''AK2'', \<lparr>ak_id = ''AK2'', ak_key = ''s2''\<rparr>)]" "''alice''" "Some ''sec''"
        0 ex_alice "(''AK1'', \<lparr>ak_id = ''AK1'', ak_key = ''s1''\<rparr>)"
        "[(''AK2'', \<lparr>ak_id = ''AK2'', ak_key = ''s2''\<rparr>)]"]
    by simp
qed

text \<open>
  C2. A credential failure is never fatal. \<^verbatim>\<open>get_access_key\<close> fails exactly when no
  credential reference is given (no access-key id and no user id), or the one lookup it
  makes returns a negative code, or the user found has no access key. Whenever it fails
  inside \<^verbatim>\<open>create_conn\<close>, the connection is still created: \<^verbatim>\<open>create_conn\<close> returns
  the handle of a new heap cell whose connection carries the local zone's system key.
  \<^verbatim>\<open>create_conn\<close> has no error result at all.
\<close>

theorem create_conn_falls_back:
  "(fst (get_access_key user (conf_uid conf) (conf_access_key conf) (conf_secret conf)
          \<lparr>ak_id = [], ak_key = []\<rparr>) = False
      \<longleftrightarrow>
        (conf_access_key conf = None \<and> conf_uid conf = None)
        \<or> (\<exists>a. conf_access_key conf = Some a \<and> conf_secret conf = None
               \<and> (fst (get_info_by_access_key user a) < 0
                    \<or> access_keys (snd (get_info_by_access_key user a)) = []))
        \<or> (\<exists>u. conf_access_key conf = None \<and> conf_uid conf = Some u
               \<and> (fst (get_info_by_uid user u) < 0
                    \<or> access_keys (snd (get_info_by_uid user u)) = [])))
   \<and> (\<not> fst (get_access_key user (conf_uid conf) (conf_access_key conf) (conf_secret conf)
               \<lparr>ak_id = [], ak_key = []\<rparr>) \<longrightarrow>
        fst (create_conn svc user zone_name zid de conf api s) = length (conn_heap s)
        \<and> conn_heap (snd (create_conn svc user zone_name zid de conf api s)) =
            conn_heap s @
            [Some \<lparr>conn_remote_id = zid,
                   conn_endpoints = (case conf_endpoints conf of Some e \<Rightarrow> e | None \<Rightarrow> de),
                   conn_key = system_key svc,
                   conn_zone_group = zg_id (get_zonegroup svc), conn_api_name = api\<rparr>])"
proof (intro conjI impI)
  show "fst (get_access_key user (conf_uid conf) (conf_access_key conf) (conf_secret conf)
          \<lparr>ak_id = [], ak_key = []\<rparr>) = False
      \<longleftrightarrow>
        (conf_access_key conf = None \<and> conf_uid conf = None)
        \<or> (\<exists>a. conf_access_key conf = Some a \<and> conf_secret conf = None
               \<and> (fst (get_info_by_access_key user a) < 0
                    \<or> access_keys (snd (get_info_by_access_key user a)) = []))
        \<or> (\<exists>u. conf_access_key conf = None \<and> conf_uid conf = Some u
               \<and> (fst (get_info_by_uid user u) < 0
                    \<or> access_keys (snd (get_info_by_uid user u)) = []))"
    by (auto simp: get_access_key_def get_access_key_tail_def Let_def
        split: option.splits prod.splits list.splits if_splits)
next
  assume "\<not> fst (get_access_key user (conf_uid conf) (conf_access_key conf) (conf_secret conf)
               \<lparr>ak_id = [], ak_key = []\<rparr>)"
  then show "fst (create_conn svc user zone_name zid de conf api s) = length (conn_heap s)"
    by (simp add: create_conn_fst)
next
  assume "\<not> fst (get_access_key user (conf_uid conf) (conf_access_key conf) (conf_secret conf)
               \<lparr>ak_id = [], ak_key = []\<rparr>)"
  then show "conn_heap (snd (create_conn svc user zone_name zid de conf api s)) =
            conn_heap s @
            [Some \<lparr>conn_remote_id = zid,
                   conn_endpoints = (case conf_endpoints conf of Some e \<Rightarrow> e | None \<Rightarrow> de),
                   conn_key = system_key svc,
                   conn_zone_group = zg_id (get_zonegroup svc), conn_api_name = api\<rparr>]"
    by (auto simp: create_conn_def new_RGWRESTConn_def Let_def split: prod.splits)
qed

theorem create_conn_falls_back_witness:
  "\<not> fst (get_access_key ex_user (Some ''bob'') None None \<lparr>ak_id = [], ak_key = []\<rparr>)
   \<and> conn_heap (snd (create_conn ex_svc ex_user ''zone-f'' ''F'' [''http://e4'']
        \<lparr>conf_endpoints = None, conf_uid = Some ''bob'', conf_access_key = None, conf_secret = None\<rparr>
        None RGWRemoteCtl_new))
      = [Some \<lparr>conn_remote_id = ''F'', conn_endpoints = [''http://e4''],
               conn_key = \<lparr>ak_id = ''SYS'', ak_key = ''syssecret''\<rparr>,
               conn_zone_group = ''zg1'', conn_api_name = None\<rparr>]
   \<and> \<not> fst (get_access_key ex_user None (Some ''AK7'') None \<lparr>ak_id = [], ak_key = []\<rparr>)
   \<and> conn_heap (snd (create_conn ex_svc ex_user ''zone-f'' ''F'' [''http://e4'']
        \<lparr>conf_endpoints = None, conf_uid = None, conf_access_key = Some ''AK7'', conf_secret = None\<rparr>
        None RGWRemoteCtl_new))
      = [Some \<lparr>conn_remote_id = ''F'', conn_endpoints = [''http://e4''],
               conn_key = \<lparr>ak_id = ''SYS'', ak_key = ''syssecret''\<rparr>,
               conn_zone_group = ''zg1'', conn_api_name = None\<rparr>]
   \<and> \<not> fst (get_access_key ex_user None None None \<lparr>ak_id = [], ak_key = []\<rparr>)
   \<and> conn_heap (snd (create_conn ex_svc ex_user ''zone-f'' ''F'' [''http://e4'']
        \<lparr>conf_endpoints = None, conf_uid = None, conf_access_key = None, conf_secret = None\<rparr>
        None RGWRemoteCtl_new))
      = [Some \<lparr>conn_remote_id = ''F'', conn_endpoints = [''http://e4''],
               conn_key = \<lparr>ak_id = ''SYS'', ak_key = ''syssecret''\<rparr>,
               conn_zone_group = ''zg1'', conn_api_name = None\<rparr>]"
proof -
  have h1: "\<not> fst (get_access_key ex_user (Some ''bob'') None None \<lparr>ak_id = [], ak_key = []\<rparr>)"
    and h2: "\<not> fst (get_access_key ex_user None (Some ''AK7'') None \<lparr>ak_id = [], ak_key = []\<rparr>)"
    and h3: "\<not> fst (get_access_key ex_user None None None \<lparr>ak_id = [], ak_key = []\<rparr>)"
    by (simp_all add: get_access_key_def get_access_key_tail_def ex_user_def)
  show ?thesis
    using h1 h2 h3
      create_conn_falls_back [of ex_user
        "\<lparr>conf_endpoints = None, conf_uid = Some ''bob'', conf_access_key = None, conf_secret = None\<rparr>"
        ex_svc "''zone-f''" "''F''" "[''http://e4'']" None RGWRemoteCtl_new]
      create_conn_falls_back [of ex_user
        "\<lparr>conf_endpoints = None, conf_uid = None, conf_access_key = Some ''AK7'', conf_secret = None\<rparr>"
        ex_svc "''zone-f''" "''F''" "[''http://e4'']" None RGWRemoteCtl_new]
      create_conn_falls_back [of ex_user
        "\<lparr>conf_endpoints = None, conf_uid = None, conf_access_key = None, conf_secret = None\<rparr>"
        ex_svc "''zone-f''" "''F''" "[''http://e4'']" None RGWRemoteCtl_new]
    by (simp add: RGWRemoteCtl_new_def ex_svc_def ex_zonegroup_def)
qed

text \<open>
  C3. Zone ids being unique over the member and foreign zones, take a zone of the zone
  group and the pair that \<^verbatim>\<open>zone_conns\<close> gives for its id after \<^verbatim>\<open>init\<close> on a new
  directory. If the zone has no sip configuration, the sip handle of the pair is the data
  handle itself (the same address). If it has one, the sip handle is a different address.
  In both cases each handle points to a live connection of the heap.
\<close>

theorem sip_aliases_data_unless_overridden:
  assumes "distinct (map (\<lambda>y. dp_id (snd y))
             (zones (get_zonegroup svc) @ foreign_zones (get_zonegroup svc)))"
    and "z \<in> snd ` set (zones (get_zonegroup svc) @ foreign_zones (get_zonegroup svc))"
    and "zone_conns (init svc user RGWRemoteCtl_new) (dp_id z) = Some c"
  shows "(sip_conf z = None \<longrightarrow> sip c = data c)
     \<and> (sip_conf z \<noteq> None \<longrightarrow> sip c \<noteq> data c)
     \<and> data c < length (conn_heap (init svc user RGWRemoteCtl_new))
     \<and> sip c < length (conn_heap (init svc user RGWRemoteCtl_new))
     \<and> conn_heap (init svc user RGWRemoteCtl_new) ! data c \<noteq> None
     \<and> conn_heap (init svc user RGWRemoteCtl_new) ! sip c \<noteq> None"
proof -
  let ?s = "init svc user RGWRemoteCtl_new"
  from assms(3) have e: "conns_map ?s (dp_id z) = Some c"
    by (simp add: zone_conns_def)
  from init_entry_builds [OF assms(1,2) e] have b: "builds_conn svc z" .
  from init_entry [OF assms(1,2) b, of user RGWRemoteCtl_new] e have "paired z c"
    by simp
  moreover have "owns_all ?s"
    by (simp add: owns_all_init owns_all_new)
  from owns_all_live [OF this e]
  have "data c < length (conn_heap ?s)" "sip c < length (conn_heap ?s)"
    "conn_heap ?s ! data c \<noteq> None" "conn_heap ?s ! sip c \<noteq> None"
    by auto
  ultimately show ?thesis by (simp add: paired_def)
qed

theorem sip_aliases_data_unless_overridden_witness:
  "distinct (map (\<lambda>y. dp_id (snd y))
     (zones (get_zonegroup ex_svc) @ foreign_zones (get_zonegroup ex_svc)))
   \<and> ex_zone_B \<in> snd ` set (zones (get_zonegroup ex_svc) @ foreign_zones (get_zonegroup ex_svc))
   \<and> sip_conf ex_zone_B = None
   \<and> zone_conns (init ex_svc ex_user RGWRemoteCtl_new) (dp_id ex_zone_B) = Some \<lparr>data = 0, sip = 0\<rparr>
   \<and> ex_zone_C \<in> snd ` set (zones (get_zonegroup ex_svc) @ foreign_zones (get_zonegroup ex_svc))
   \<and> sip_conf ex_zone_C \<noteq> None
   \<and> zone_conns (init ex_svc ex_user RGWRemoteCtl_new) (dp_id ex_zone_C) = Some \<lparr>data = 1, sip = 2\<rparr>
   \<and> sip \<lparr>data = 0, sip = 0\<rparr> = data \<lparr>data = 0, sip = 0\<rparr>
   \<and> sip \<lparr>data = 1, sip = 2\<rparr> \<noteq> data \<lparr>data = 1, sip = 2\<rparr>"
proof -
  have mB: "ex_zone_B \<in> snd ` set (zones (get_zonegroup ex_svc) @ foreign_zones (get_zonegroup ex_svc))"
    and mC: "ex_zone_C \<in> snd ` set (zones (get_zonegroup ex_svc) @ foreign_zones (get_zonegroup ex_svc))"
    by (simp_all add: ex_svc_def ex_zonegroup_def)
  have eB: "zone_conns (init ex_svc ex_user RGWRemoteCtl_new) (dp_id ex_zone_B)
      = Some \<lparr>data = 0, sip = 0\<rparr>"
    and eC: "zone_conns (init ex_svc ex_user RGWRemoteCtl_new) (dp_id ex_zone_C)
      = Some \<lparr>data = 1, sip = 2\<rparr>"
    by (simp_all add: zone_conns_def ex_init ex_zone_B_def ex_zone_C_def)
  have sB: "sip_conf ex_zone_B = None" and sC: "sip_conf ex_zone_C \<noteq> None"
    by (simp_all add: ex_zone_B_def ex_zone_C_def)
  from sip_aliases_data_unless_overridden [OF ex_zone_ids_distinct mB eB]
    sip_aliases_data_unless_overridden [OF ex_zone_ids_distinct mC eC]
    ex_zone_ids_distinct mB mC eB eC sB sC
  show ?thesis by simp
qed

text \<open>
  C4. After \<^verbatim>\<open>init\<close> on a new directory, the zones in the metadata-notify table are
  exactly the member zones that got a connection (not the local zone, default endpoint
  list not empty), and the zones in the data-notify table are those of them that the zone
  service lists in its data-notify set. So every such member zone has a directory entry,
  is in the metadata-notify table, and is in the data-notify table if and only if the
  data-notify set contains its id; and a foreign zone (a zone outside the group: its id
  is not the id of a member zone) is in neither table.
\<close>

theorem init_notify_tables:
  "dom (zone_meta_notify_to_map (init svc user RGWRemoteCtl_new)) =
     dp_id ` {z \<in> snd ` set (zones (get_zonegroup svc)).
               dp_id z \<noteq> zone_id svc \<and> def_endpoints z \<noteq> []}
   \<and> dom (zone_data_notify_to_map (init svc user RGWRemoteCtl_new)) =
       dp_id ` {z \<in> snd ` set (zones (get_zonegroup svc)).
                 dp_id z \<noteq> zone_id svc \<and> def_endpoints z \<noteq> []}
       \<inter> get_zone_data_notify_set svc
   \<and> (\<forall>z \<in> snd ` set (zones (get_zonegroup svc)).
         dp_id z \<noteq> zone_id svc \<and> def_endpoints z \<noteq> [] \<longrightarrow>
           dp_id z \<in> dom (conns_map (init svc user RGWRemoteCtl_new))
           \<and> dp_id z \<in> dom (zone_meta_notify_to_map (init svc user RGWRemoteCtl_new))
           \<and> (dp_id z \<in> dom (zone_data_notify_to_map (init svc user RGWRemoteCtl_new))
                \<longleftrightarrow> dp_id z \<in> get_zone_data_notify_set svc))
   \<and> (\<forall>f \<in> snd ` set (foreign_zones (get_zonegroup svc)).
         dp_id f \<notin> dp_id ` snd ` set (zones (get_zonegroup svc)) \<longrightarrow>
           dp_id f \<notin> dom (zone_meta_notify_to_map (init svc user RGWRemoteCtl_new))
           \<and> dp_id f \<notin> dom (zone_data_notify_to_map (init svc user RGWRemoteCtl_new)))"
proof -
  let ?s = "init svc user RGWRemoteCtl_new"
  let ?B = "dp_id ` {z \<in> snd ` set (zones (get_zonegroup svc)).
               dp_id z \<noteq> zone_id svc \<and> def_endpoints z \<noteq> []}"
  have m: "dom (zone_meta_notify_to_map ?s) = ?B"
    by (simp add: init_def init_zones_meta_dom RGWRemoteCtl_new_def builds_conn_def)
  have n: "dom (zone_data_notify_to_map ?s) = ?B \<inter> get_zone_data_notify_set svc"
    by (simp add: init_def init_zones_data_dom RGWRemoteCtl_new_def builds_conn_def)
  have c: "?B \<subseteq> dom (conns_map ?s)"
    unfolding init_conns_dom by (auto simp: builds_conn_def)
  have sub: "?B \<subseteq> dp_id ` snd ` set (zones (get_zonegroup svc))"
    by auto
  show ?thesis
    unfolding m n using c sub by auto
qed

theorem init_notify_tables_witness:
  "ex_zone_B \<in> snd ` set (zones (get_zonegroup ex_svc))
   \<and> dp_id ex_zone_B \<noteq> zone_id ex_svc \<and> def_endpoints ex_zone_B \<noteq> []
   \<and> ex_zone_C \<in> snd ` set (zones (get_zonegroup ex_svc))
   \<and> dp_id ex_zone_C \<noteq> zone_id ex_svc \<and> def_endpoints ex_zone_C \<noteq> []
   \<and> ex_zone_F \<in> snd ` set (foreign_zones (get_zonegroup ex_svc))
   \<and> dp_id ex_zone_F \<notin> dp_id ` snd ` set (zones (get_zonegroup ex_svc))
   \<and> dom (zone_meta_notify_to_map (init ex_svc ex_user RGWRemoteCtl_new)) = {''B'', ''C''}
   \<and> dom (zone_data_notify_to_map (init ex_svc ex_user RGWRemoteCtl_new)) = {''B''}
   \<and> dom (conns_map (init ex_svc ex_user RGWRemoteCtl_new)) = {''B'', ''C'', ''F''}
   \<and> get_zone_data_notify_set ex_svc = {''B''}"
proof -
  have mB: "ex_zone_B \<in> snd ` set (zones (get_zonegroup ex_svc))"
    and mC: "ex_zone_C \<in> snd ` set (zones (get_zonegroup ex_svc))"
    and mF: "ex_zone_F \<in> snd ` set (foreign_zones (get_zonegroup ex_svc))"
    by (simp_all add: ex_svc_def ex_zonegroup_def)
  have bB: "dp_id ex_zone_B \<noteq> zone_id ex_svc \<and> def_endpoints ex_zone_B \<noteq> []"
    and bC: "dp_id ex_zone_C \<noteq> zone_id ex_svc \<and> def_endpoints ex_zone_C \<noteq> []"
    by (simp_all add: ex_svc_def ex_zone_B_def ex_zone_C_def def_endpoints_def)
  have nF: "dp_id ex_zone_F \<notin> dp_id ` snd ` set (zones (get_zonegroup ex_svc))"
    by (simp add: ex_defs)
  note t = init_notify_tables [of ex_svc ex_user]
  from t have members:
    "\<forall>z \<in> snd ` set (zones (get_zonegroup ex_svc)).
         dp_id z \<noteq> zone_id ex_svc \<and> def_endpoints z \<noteq> [] \<longrightarrow>
           dp_id z \<in> dom (conns_map (init ex_svc ex_user RGWRemoteCtl_new))
           \<and> dp_id z \<in> dom (zone_meta_notify_to_map (init ex_svc ex_user RGWRemoteCtl_new))
           \<and> (dp_id z \<in> dom (zone_data_notify_to_map (init ex_svc ex_user RGWRemoteCtl_new))
                \<longleftrightarrow> dp_id z \<in> get_zone_data_notify_set ex_svc)"
    and foreign:
    "\<forall>f \<in> snd ` set (foreign_zones (get_zonegroup ex_svc)).
         dp_id f \<notin> dp_id ` snd ` set (zones (get_zonegroup ex_svc)) \<longrightarrow>
           dp_id f \<notin> dom (zone_meta_notify_to_map (init ex_svc ex_user RGWRemoteCtl_new))
           \<and> dp_id f \<notin> dom (zone_data_notify_to_map (init ex_svc ex_user RGWRemoteCtl_new))"
    by blast+
  from bspec [OF members mB] bB bspec [OF members mC] bC bspec [OF foreign mF] nF mB mC mF
  show ?thesis
    by (simp add: ex_init) (auto simp: ex_svc_def)
qed

text \<open>
  C5. A zone whose default endpoint list is still empty after the fallback to the
  data-access override is skipped: \<^verbatim>\<open>init_conn\<close> returns the state it was given, so no
  connection is allocated, nothing is registered and no error is raised. Zone ids being
  unique, after \<^verbatim>\<open>init\<close> on a new directory the lookup of that zone by id is absent,
  and so is the lookup by any name that the zone service resolves to that id.
\<close>

theorem init_skips_zone_without_endpoints:
  "def_endpoints z = [] \<longrightarrow>
     init_conn svc user z need_notify s = s
     \<and> (z \<in> snd ` set (zones (get_zonegroup svc) @ foreign_zones (get_zonegroup svc))
        \<and> distinct (map (\<lambda>y. dp_id (snd y))
             (zones (get_zonegroup svc) @ foreign_zones (get_zonegroup svc))) \<longrightarrow>
          zone_conns (init svc user RGWRemoteCtl_new) (dp_id z) = None
          \<and> (\<forall>name. find_zone_id_by_name svc name = Some (dp_id z) \<longrightarrow>
                zone_conns_by_name svc (init svc user RGWRemoteCtl_new) name = None))"
proof (intro impI conjI)
  assume e: "def_endpoints z = []"
  then have nb: "\<not> builds_conn svc z" by (simp add: builds_conn_def)
  then show "init_conn svc user z need_notify s = s" by (rule init_conn_skip)
  assume "z \<in> snd ` set (zones (get_zonegroup svc) @ foreign_zones (get_zonegroup svc))
        \<and> distinct (map (\<lambda>y. dp_id (snd y))
             (zones (get_zonegroup svc) @ foreign_zones (get_zonegroup svc)))"
  then have z: "z \<in> snd ` set (zones (get_zonegroup svc) @ foreign_zones (get_zonegroup svc))"
    and d: "distinct (map (\<lambda>y. dp_id (snd y))
             (zones (get_zonegroup svc) @ foreign_zones (get_zonegroup svc)))"
    by blast+
  show none: "zone_conns (init svc user RGWRemoteCtl_new) (dp_id z) = None"
  proof (cases "conns_map (init svc user RGWRemoteCtl_new) (dp_id z)")
    case None
    then show ?thesis by (simp add: zone_conns_def)
  next
    case (Some c)
    from init_entry_builds [OF d z Some] nb show ?thesis by simp
  qed
  show "\<forall>name. find_zone_id_by_name svc name = Some (dp_id z) \<longrightarrow>
          zone_conns_by_name svc (init svc user RGWRemoteCtl_new) name = None"
    using none by (simp add: zone_conns_by_name_def)
qed

theorem init_skips_zone_without_endpoints_witness:
  "def_endpoints ex_zone_D = []
   \<and> ex_zone_D \<in> snd ` set (zones (get_zonegroup ex_svc) @ foreign_zones (get_zonegroup ex_svc))
   \<and> distinct (map (\<lambda>y. dp_id (snd y))
        (zones (get_zonegroup ex_svc) @ foreign_zones (get_zonegroup ex_svc)))
   \<and> find_zone_id_by_name ex_svc ''zone-d'' = Some (dp_id ex_zone_D)
   \<and> init_conn ex_svc ex_user ex_zone_D True RGWRemoteCtl_new = RGWRemoteCtl_new
   \<and> zone_conns (init ex_svc ex_user RGWRemoteCtl_new) ''D'' = None
   \<and> zone_conns_by_name ex_svc (init ex_svc ex_user RGWRemoteCtl_new) ''zone-d'' = None"
proof -
  have e: "def_endpoints ex_zone_D = []"
    by (simp add: def_endpoints_def ex_zone_D_def)
  have m: "ex_zone_D \<in> snd ` set (zones (get_zonegroup ex_svc) @ foreign_zones (get_zonegroup ex_svc))"
    by (simp add: ex_svc_def ex_zonegroup_def)
  have n: "find_zone_id_by_name ex_svc ''zone-d'' = Some (dp_id ex_zone_D)"
    by (simp add: ex_svc_def ex_zone_D_def)
  have i: "dp_id ex_zone_D = ''D''"
    by (simp add: ex_zone_D_def)
  from init_skips_zone_without_endpoints [of ex_zone_D ex_svc ex_user True RGWRemoteCtl_new]
    e m ex_zone_ids_distinct n
  show ?thesis by (simp add: i)
qed

text \<open>
  C6. The claim says that an override's endpoint list that is present but empty never
  becomes the endpoint list of the connection. \<^verbatim>\<open>create_conn\<close> takes
  \<^verbatim>\<open>conf.endpoints.value_or(def_endpoints)\<close>, which falls back only when the list is
  absent. Evaluated on zone \<open>E\<close> (own endpoints \<open>http://e5\<close>, data-access override with an
  empty endpoint list): the default endpoint list is \<open>[http://e5]\<close>, and the data
  connection that \<^verbatim>\<open>init_conn\<close> stores for \<open>E\<close> has no endpoint at all. The same holds
  for \<^verbatim>\<open>create_conn\<close> called directly.
\<close>

theorem create_conn_keeps_empty_override:
  "conn_heap (init_conn ex_svc ex_user ex_zone_E True RGWRemoteCtl_new) =
     [Some \<lparr>conn_remote_id = ''E'', conn_endpoints = [],
            conn_key = \<lparr>ak_id = ''SYS'', ak_key = ''syssecret''\<rparr>,
            conn_zone_group = ''zg1'', conn_api_name = None\<rparr>]
   \<and> def_endpoints ex_zone_E = [''http://e5'']
   \<and> conns_map (init_conn ex_svc ex_user ex_zone_E True RGWRemoteCtl_new) ''E''
       = Some \<lparr>data = 0, sip = 0\<rparr>
   \<and> conn_heap (snd (create_conn ex_svc ex_user ''zone-e'' ''E'' [''http://e5'']
        \<lparr>conf_endpoints = Some [], conf_uid = None, conf_access_key = None, conf_secret = None\<rparr>
        None RGWRemoteCtl_new)) =
     [Some \<lparr>conn_remote_id = ''E'', conn_endpoints = [],
            conn_key = \<lparr>ak_id = ''SYS'', ak_key = ''syssecret''\<rparr>,
            conn_zone_group = ''zg1'', conn_api_name = None\<rparr>]"
  by (simp add: init_conn_def create_conn_def add_conn_def new_RGWRESTConn_def
      get_access_key_def get_access_key_tail_def def_endpoints_def RGWRemoteCtl_new_def ex_defs
      ex_zone_E_def Let_def)

text \<open>
  C7. After \<^verbatim>\<open>init\<close> on a new directory, \<^verbatim>\<open>get_redirect_zone_endpoint\<close> always
  returns (it never dereferences a handle that holds no live connection). It returns
  \<^verbatim>\<open>false\<close> in exactly three situations: the local zone has no redirect zone, the
  redirect zone has no entry in \<^verbatim>\<open>conns_map\<close>, or \<^verbatim>\<open>get_url\<close> on the data
  connection of the redirect zone returns a negative code. Otherwise it returns the url
  that \<^verbatim>\<open>get_url\<close> reports for that connection. \<^verbatim>\<open>get_url\<close> is arbitrary here.
\<close>

theorem redirect_endpoint_cases:
  "\<exists>res. get_redirect_zone_endpoint get_url svc (init svc user RGWRemoteCtl_new) = Inr res
     \<and> (res = None \<longleftrightarrow>
          redirect_zone svc = []
          \<or> conns_map (init svc user RGWRemoteCtl_new) (redirect_zone svc) = None
          \<or> (\<exists>c conn. conns_map (init svc user RGWRemoteCtl_new) (redirect_zone svc) = Some c
                \<and> conn_heap (init svc user RGWRemoteCtl_new) ! data c = Some conn
                \<and> fst (get_url conn) < 0))
     \<and> (\<forall>e. res = Some e \<longrightarrow>
          (\<exists>c conn. conns_map (init svc user RGWRemoteCtl_new) (redirect_zone svc) = Some c
                \<and> conn_heap (init svc user RGWRemoteCtl_new) ! data c = Some conn
                \<and> e = snd (get_url conn)))"
proof -
  let ?s = "init svc user RGWRemoteCtl_new"
  have o: "owns_all ?s"
    by (simp add: owns_all_init owns_all_new)
  show ?thesis
  proof (cases "conns_map ?s (redirect_zone svc)")
    case None
    then show ?thesis by (simp add: get_redirect_zone_endpoint_def)
  next
    case (Some c)
    from owns_all_live(1) [OF o Some] obtain conn where
      conn: "data c < length (conn_heap ?s)" "conn_heap ?s ! data c = Some conn"
      by blast
    with Some show ?thesis
      by (cases "get_url conn") (simp add: get_redirect_zone_endpoint_def)
  qed
qed

theorem redirect_endpoint_cases_witness:
  "get_redirect_zone_endpoint ex_get_url ex_svc (init ex_svc ex_user RGWRemoteCtl_new)
     = Inr (Some ''http://e2'')
   \<and> get_redirect_zone_endpoint (\<lambda>conn. (- 5, [])) ex_svc (init ex_svc ex_user RGWRemoteCtl_new)
     = Inr None
   \<and> get_redirect_zone_endpoint ex_get_url (ex_svc\<lparr>redirect_zone := []\<rparr>)
       (init (ex_svc\<lparr>redirect_zone := []\<rparr>) ex_user RGWRemoteCtl_new) = Inr None
   \<and> get_redirect_zone_endpoint ex_get_url (ex_svc\<lparr>redirect_zone := ''D''\<rparr>)
       (init (ex_svc\<lparr>redirect_zone := ''D''\<rparr>) ex_user RGWRemoteCtl_new) = Inr None"
  using
    redirect_endpoint_cases [of ex_get_url ex_svc ex_user]
    redirect_endpoint_cases [of "\<lambda>conn. (- 5, [])" ex_svc ex_user]
    redirect_endpoint_cases [of ex_get_url "ex_svc\<lparr>redirect_zone := []\<rparr>" ex_user]
    redirect_endpoint_cases [of ex_get_url "ex_svc\<lparr>redirect_zone := ''D''\<rparr>" ex_user]
  by (simp add: get_redirect_zone_endpoint_def init_redirect ex_init ex_get_url_def)
    (simp add: ex_svc_def)

text \<open>
  C8. Processing the local zone is a no-op: for a zone whose id is the local zone id,
  \<^verbatim>\<open>init_conn\<close> returns the state unchanged, so the directory, both notify tables, the
  list of owned handles and the heap stay as they were.
\<close>

theorem init_conn_self_is_noop:
  "dp_id z = zone_id svc \<Longrightarrow> init_conn svc user z need_notify s = s"
  by (simp add: init_conn_def)

theorem init_conn_self_is_noop_witness:
  "dp_id ex_zone_A = zone_id ex_svc
   \<and> init_conn ex_svc ex_user ex_zone_A True ex_state = ex_state
   \<and> conns_map (init_conn ex_svc ex_user ex_zone_A True ex_state) ''A'' = None"
proof -
  have h: "dp_id ex_zone_A = zone_id ex_svc"
    by (simp add: ex_zone_A_def ex_svc_def)
  show ?thesis
    using h init_conn_self_is_noop [OF h, of ex_user True ex_state]
    by (simp add: ex_state_eq)
qed

text \<open>
  C9. After \<^verbatim>\<open>init\<close> on a new directory, every allocated connection handle occurs
  exactly once in \<^verbatim>\<open>alloc_conns\<close>, \<^verbatim>\<open>alloc_conns\<close> holds nothing else, no connection
  has been released, and every handle of a pair in \<^verbatim>\<open>conns_map\<close> is one of them. The
  destructor then succeeds and leaves every cell released: each handle is deleted once and
  no deleted cell is deleted again. For a zone without sip configuration \<^verbatim>\<open>init_conn\<close>
  registers one handle only, although the handle fills both slots of the pair.
\<close>

theorem init_registers_each_handle_once:
  "(\<forall>p < length (conn_heap (init svc user RGWRemoteCtl_new)).
      count_list (alloc_conns (init svc user RGWRemoteCtl_new)) p = 1)
   \<and> set (alloc_conns (init svc user RGWRemoteCtl_new))
       = {..<length (conn_heap (init svc user RGWRemoteCtl_new))}
   \<and> None \<notin> set (conn_heap (init svc user RGWRemoteCtl_new))
   \<and> (\<forall>i c. conns_map (init svc user RGWRemoteCtl_new) i = Some c \<longrightarrow>
         data c \<in> set (alloc_conns (init svc user RGWRemoteCtl_new))
         \<and> sip c \<in> set (alloc_conns (init svc user RGWRemoteCtl_new)))
   \<and> destructor (init svc user RGWRemoteCtl_new)
       = Inr (replicate (length (conn_heap (init svc user RGWRemoteCtl_new))) None)
   \<and> (dp_id z \<noteq> zone_id svc \<and> def_endpoints z \<noteq> [] \<and> sip_conf z = None \<longrightarrow>
         alloc_conns (init_conn svc user z need_notify s) = alloc_conns s @ [length (conn_heap s)]
         \<and> conns_map (init_conn svc user z need_notify s) (dp_id z)
             = Some \<lparr>data = length (conn_heap s), sip = length (conn_heap s)\<rparr>)"
proof -
  let ?s = "init svc user RGWRemoteCtl_new"
  have o: "owns_all ?s"
    by (simp add: owns_all_init owns_all_new)
  then have a: "alloc_conns ?s = [0..<length (conn_heap ?s)]"
    and l: "None \<notin> set (conn_heap ?s)"
    and c: "\<forall>i c. conns_map ?s i = Some c \<longrightarrow>
             data c < length (conn_heap ?s) \<and> sip c < length (conn_heap ?s)"
    by (simp_all add: owns_all_def)
  have 1: "\<forall>p < length (conn_heap ?s). count_list (alloc_conns ?s) p = 1"
    by (simp add: a count_list_upt)
  have 2: "set (alloc_conns ?s) = {..<length (conn_heap ?s)}"
    by (auto simp: a)
  have 3: "\<forall>i c. conns_map ?s i = Some c \<longrightarrow>
         data c \<in> set (alloc_conns ?s) \<and> sip c \<in> set (alloc_conns ?s)"
    using c unfolding 2 by simp
  have 4: "destructor ?s = Inr (replicate (length (conn_heap ?s)) None)"
    using o by (rule destructor_owns_all)
  have 5: "dp_id z \<noteq> zone_id svc \<and> def_endpoints z \<noteq> [] \<and> sip_conf z = None \<longrightarrow>
         alloc_conns (init_conn svc user z need_notify s) = alloc_conns s @ [length (conn_heap s)]
         \<and> conns_map (init_conn svc user z need_notify s) (dp_id z)
             = Some \<lparr>data = length (conn_heap s), sip = length (conn_heap s)\<rparr>"
    by (simp add: init_conn_alloc init_conn_conns_map builds_conn_def)
  from 1 2 l 3 4 5 show ?thesis by blast
qed

theorem init_registers_each_handle_once_witness:
  "alloc_conns (init ex_svc ex_user RGWRemoteCtl_new) = [0, 1, 2, 3]
   \<and> length (conn_heap (init ex_svc ex_user RGWRemoteCtl_new)) = 4
   \<and> conns_map (init ex_svc ex_user RGWRemoteCtl_new) ''B'' = Some \<lparr>data = 0, sip = 0\<rparr>
   \<and> count_list (alloc_conns (init ex_svc ex_user RGWRemoteCtl_new)) 0 = 1
   \<and> destructor (init ex_svc ex_user RGWRemoteCtl_new) = Inr [None, None, None, None]
   \<and> dp_id ex_zone_B \<noteq> zone_id ex_svc \<and> def_endpoints ex_zone_B \<noteq> [] \<and> sip_conf ex_zone_B = None
   \<and> alloc_conns (init_conn ex_svc ex_user ex_zone_B True RGWRemoteCtl_new) = [0]
   \<and> conns_map (init_conn ex_svc ex_user ex_zone_B True RGWRemoteCtl_new) ''B''
       = Some \<lparr>data = 0, sip = 0\<rparr>"
proof -
  have b: "dp_id ex_zone_B \<noteq> zone_id ex_svc \<and> def_endpoints ex_zone_B \<noteq> [] \<and> sip_conf ex_zone_B = None"
    by (simp add: ex_svc_def ex_zone_B_def def_endpoints_def)
  have i: "dp_id ex_zone_B = ''B''"
    by (simp add: ex_zone_B_def)
  have n: "conn_heap RGWRemoteCtl_new = []" "alloc_conns RGWRemoteCtl_new = []"
    by (simp_all add: RGWRemoteCtl_new_def)
  have l: "length (conn_heap (init ex_svc ex_user RGWRemoteCtl_new)) = 4"
    by (simp add: ex_init)
  from init_registers_each_handle_once [of ex_svc ex_user ex_zone_B True RGWRemoteCtl_new] b
  show ?thesis
    unfolding l i n by (simp add: ex_init numeral_eq_Suc)
qed

text \<open>
  C10. With a secret only (no access-key id, no user id) \<^verbatim>\<open>get_access_key\<close> returns
  \<^verbatim>\<open>false\<close>, leaves the result untouched and calls the user store not at all: the secret
  is ignored. \<^verbatim>\<open>create_conn\<close> on such a configuration adds no call to the log of store
  calls and creates the connection with the local zone's system key.
\<close>

theorem secret_only_is_ignored:
  "get_access_key user None None (Some sec) result = (False, result, [])
   \<and> fst (create_conn svc user zone_name zid de
             \<lparr>conf_endpoints = eps, conf_uid = None, conf_access_key = None, conf_secret = Some sec\<rparr>
             api s) = length (conn_heap s)
   \<and> store_calls (snd (create_conn svc user zone_name zid de
             \<lparr>conf_endpoints = eps, conf_uid = None, conf_access_key = None, conf_secret = Some sec\<rparr>
             api s)) = store_calls s
   \<and> conn_heap (snd (create_conn svc user zone_name zid de
             \<lparr>conf_endpoints = eps, conf_uid = None, conf_access_key = None, conf_secret = Some sec\<rparr>
             api s)) =
       conn_heap s @
       [Some \<lparr>conn_remote_id = zid,
              conn_endpoints = (case eps of Some e \<Rightarrow> e | None \<Rightarrow> de),
              conn_key = system_key svc,
              conn_zone_group = zg_id (get_zonegroup svc), conn_api_name = api\<rparr>]"
  by (simp add: get_access_key_def create_conn_def new_RGWRESTConn_def)

end
